theory Spec2Isabelle
  imports Main
begin

section \<open>Data model\<close>

text \<open>
  The user actions of store-it (\<^verbatim>\<open>src/unnamed/part_000\<close>, with an older copy of the first
  half at \<^verbatim>\<open>src/lib/actions/user.actions.ts\<close>) sequence calls to the Appwrite SDK and to
  the cookie store of Next.js. The embedding keeps the application's own state explicit
  (the users collection, the cookie store, the console) and takes the answers of the
  external service as a parameter \<open>sv\<close>, so that every theorem holds for every behaviour
  of the service.
\<close>

text \<open>
  The values that can be thrown: a failure reported by an SDK call (opaque), a JavaScript
  \<^verbatim>\<open>new Error(message)\<close>, and the control-flow signal by which \<^verbatim>\<open>redirect(url)\<close> of
  \<^verbatim>\<open>next/navigation\<close> ends the running action.
\<close>

datatype exn =
    ServiceError string
  | Error string
  | NEXT_REDIRECT string

datatype 'a outcome = Returned 'a | Thrown exn

text \<open>A document of the users collection: its \<^verbatim>\<open>$id\<close> and the four attributes.\<close>

record document =
  doc_id :: string
  doc_fullName :: string
  doc_email :: string
  doc_avatar :: string
  doc_accountId :: string

text \<open>\<^verbatim>\<open>Query.equal(attribute, values)\<close>.\<close>

datatype query = Query_equal string "string list"

text \<open>The answer of \<^verbatim>\<open>databases.listDocuments\<close>: \<^verbatim>\<open>{ total, documents }\<close>.\<close>

record document_list =
  dl_total :: nat
  dl_documents :: "document list"

text \<open>
  The token of \<^verbatim>\<open>account.createEmailToken\<close>. The source tests the user identifier for
  truthiness (\<^verbatim>\<open>if (!accountId)\<close>), so it may be absent (\<open>None\<close>) or empty.
\<close>

record token =
  token_userId :: "string option"

text \<open>The session of \<^verbatim>\<open>account.createSession\<close>: \<^verbatim>\<open>$id\<close> and \<^verbatim>\<open>secret\<close>.\<close>

record session =
  session_id :: string
  session_secret :: string

text \<open>The identity of \<^verbatim>\<open>account.get()\<close>: its \<^verbatim>\<open>$id\<close>.\<close>

record identity =
  identity_id :: string

datatype same_site = Strict | Lax | NoneSite

record cookie =
  cookie_value :: string
  cookie_path :: string
  cookie_httpOnly :: bool
  cookie_sameSite :: same_site
  cookie_secure :: bool

datatype log_entry = Log_error exn string | Log_message string

text \<open>
  The state the actions read and write: the users collection, the cookie store of the
  request, the requests for an email token made so far (identifier and email of each
  call), the console, and the number of identifiers drawn from \<^verbatim>\<open>ID.unique()\<close>.
\<close>

record world =
  users_collection :: "document list"
  cookie_store :: "string \<rightharpoonup> cookie"
  email_token_requests :: "(string \<times> string) list"
  console :: "log_entry list"
  id_counter :: nat

text \<open>
  The external collaborators, none of which is under \<^verbatim>\<open>src/\<close>: what each SDK call
  answers. A database call either fails or acts on the users collection; the other calls
  answer with an error or a value.
\<close>

record services =
  ID_unique_values :: "nat \<Rightarrow> string"
  listDocuments_fault :: "query list \<Rightarrow> exn option"
  createDocument_fault :: "string \<Rightarrow> exn option"
  createEmailToken_response :: "string \<Rightarrow> string \<Rightarrow> exn + token"
  createSession_response :: "string \<Rightarrow> string \<Rightarrow> exn + session"
  createSessionClient_response :: "exn + unit"
  account_get_response :: "exn + identity"
  deleteSession_response :: "string \<Rightarrow> exn option"

text \<open>The results the exported actions hand to their callers.\<close>

record account_result =
  ar_accountId :: string

record verify_result =
  vr_sessionId :: string

record sign_in_result =
  sir_accountId :: "string option"
  sir_error :: "string option"

section \<open>Control flow\<close>

type_synonym 'a action = "world \<Rightarrow> 'a outcome \<times> world"

definition returns :: "'a \<Rightarrow> 'a action" where
  "returns x st = (Returned x, st)"

definition throw :: "exn \<Rightarrow> 'a action" where
  "throw e st = (Thrown e, st)"

text \<open>\<^verbatim>\<open>const x = await m; k(x)\<close>: a rejection of \<open>m\<close> leaves the function.\<close>

definition await :: "'a action \<Rightarrow> ('a \<Rightarrow> 'b action) \<Rightarrow> 'b action" where
  "await m k st =
     (case m st of
        (Returned x, st') \<Rightarrow> k x st'
      | (Thrown e, st') \<Rightarrow> (Thrown e, st'))"

text \<open>\<^verbatim>\<open>try { body } catch (error) { handler }\<close>.\<close>

definition try_catch :: "'a action \<Rightarrow> (exn \<Rightarrow> 'a action) \<Rightarrow> 'a action" where
  "try_catch body handler st =
     (case body st of
        (Returned x, st') \<Rightarrow> (Returned x, st')
      | (Thrown e, st') \<Rightarrow> handler e st')"

text \<open>
  \<^verbatim>\<open>try { body } finally { fin }\<close>: the finaliser runs after the body however the body
  ended; when the finaliser itself throws, that replaces the body's completion.
\<close>

definition try_finally :: "'a action \<Rightarrow> unit action \<Rightarrow> 'a action" where
  "try_finally body fin st =
     (case body st of
        (r, st') \<Rightarrow>
          (case fin st' of
             (Returned u, st'') \<Rightarrow> (r, st'')
           | (Thrown e, st'') \<Rightarrow> (Thrown e, st'')))"

definition respond :: "exn + 'a \<Rightarrow> 'a action" where
  "respond r = (case r of Inl e \<Rightarrow> throw e | Inr x \<Rightarrow> returns x)"

section \<open>External collaborators\<close>

definition console_log :: "log_entry \<Rightarrow> unit action" where
  "console_log entry st = (Returned (), st\<lparr>console := console st @ [entry]\<rparr>)"

text \<open>
  Modelled from the spec: \<^verbatim>\<open>parseStringify\<close> of \<^verbatim>\<open>@/lib/utils\<close> is not under
  \<^verbatim>\<open>src/\<close>; the spec gives the actions' results as the very objects passed to it
  (\<^verbatim>\<open>createAccount(...) \<rightarrow> {accountId}\<close>), so it is the identity here.
\<close>

definition parseStringify :: "'a \<Rightarrow> 'a" where
  "parseStringify x = x"

text \<open>
  Modelled from the spec: \<^verbatim>\<open>avatarPlaceholderUrl\<close> of \<^verbatim>\<open>@/constants\<close> is not under
  \<^verbatim>\<open>src/\<close> ("creates one with a default avatar"); the value is the literal that the
  copy of \<^verbatim>\<open>createAccount\<close> in \<^verbatim>\<open>user.actions.ts\<close> (line 82) passes in its place.
\<close>

definition avatarPlaceholderUrl :: string where
  "avatarPlaceholderUrl =
     ''https://th.bing.com/th/id/OIP.hGSCbXlcOjL_9mmzerqAbQHaHa?w=181&h=181&c=7&r=0&o=5&pid=1.7''"

text \<open>
  Modelled from the spec: \<^verbatim>\<open>redirect\<close> of \<^verbatim>\<open>next/navigation\<close> is not under \<^verbatim>\<open>src/\<close>;
  \<^verbatim>\<open>signOutUser\<close> "terminates by redirecting to /sign-in". It never returns: it ends the
  action by throwing the redirect signal.
\<close>

definition redirect :: "string \<Rightarrow> unit action" where
  "redirect url = throw (NEXT_REDIRECT url)"

text \<open>\<^verbatim>\<open>ID.unique()\<close>: the next identifier of the generator.\<close>

definition ID_unique :: "services \<Rightarrow> string action" where
  "ID_unique sv st =
     (Returned (ID_unique_values sv (id_counter st)), st\<lparr>id_counter := Suc (id_counter st)\<rparr>)"

text \<open>
  Modelled from the spec: \<^verbatim>\<open>createAdminClient\<close> of \<^verbatim>\<open>@/lib/appwrite\<close> is not under
  \<^verbatim>\<open>src/\<close>; "every invocation operates on a fresh client handle for that request", and
  no failure of it is among the spec's error kinds. It returns the handle.
\<close>

definition createAdminClient :: "unit action" where
  "createAdminClient = returns ()"

text \<open>
  Modelled from the spec: \<^verbatim>\<open>createSessionClient\<close> of \<^verbatim>\<open>@/lib/appwrite\<close> is not under
  \<^verbatim>\<open>src/\<close>; it "resolves the active session from the cookie/transport context", and
  "no session" is "an error condition propagated from the session lookup". Whether it
  fails is the service parameter's choice.
\<close>

definition createSessionClient :: "services \<Rightarrow> unit action" where
  "createSessionClient sv = respond (createSessionClient_response sv)"

text \<open>The attribute of a document that a query names.\<close>

definition attribute :: "document \<Rightarrow> string \<Rightarrow> string option" where
  "attribute d a =
     (if a = ''$id'' then Some (doc_id d)
      else if a = ''fullName'' then Some (doc_fullName d)
      else if a = ''email'' then Some (doc_email d)
      else if a = ''avatar'' then Some (doc_avatar d)
      else if a = ''accountId'' then Some (doc_accountId d)
      else None)"

fun matches :: "document \<Rightarrow> query \<Rightarrow> bool" where
  "matches d (Query_equal a vs) =
     (case attribute d a of None \<Rightarrow> False | Some v \<Rightarrow> v \<in> set vs)"

text \<open>
  \<^verbatim>\<open>databases.listDocuments(databaseId, usersCollectionId, queries)\<close>: the documents of
  the users collection that satisfy every query, in the collection's order, and their
  number.
\<close>

definition listDocuments :: "services \<Rightarrow> query list \<Rightarrow> document_list action" where
  "listDocuments sv queries st =
     (case listDocuments_fault sv queries of
        Some e \<Rightarrow> (Thrown e, st)
      | None \<Rightarrow>
          (let found = filter (\<lambda>d. list_all (matches d) queries) (users_collection st)
           in (Returned \<lparr>dl_total = length found, dl_documents = found\<rparr>, st)))"

text \<open>
  \<^verbatim>\<open>databases.createDocument(databaseId, usersCollectionId, id, data)\<close>: appends the
  document to the users collection unless the call fails.
\<close>

definition createDocument ::
  "services \<Rightarrow> string \<Rightarrow> string \<Rightarrow> string \<Rightarrow> string \<Rightarrow> string \<Rightarrow> document action" where
  "createDocument sv docId fullName email avatar accountId st =
     (case createDocument_fault sv docId of
        Some e \<Rightarrow> (Thrown e, st)
      | None \<Rightarrow>
          (let d = \<lparr>doc_id = docId, doc_fullName = fullName, doc_email = email,
                    doc_avatar = avatar, doc_accountId = accountId\<rparr>
           in (Returned d, st\<lparr>users_collection := users_collection st @ [d]\<rparr>)))"

text \<open>\<^verbatim>\<open>account.createEmailToken(userId, email)\<close>: the request is recorded, then answered.\<close>

definition account_createEmailToken :: "services \<Rightarrow> string \<Rightarrow> string \<Rightarrow> token action" where
  "account_createEmailToken sv userId email st =
     respond (createEmailToken_response sv userId email)
       (st\<lparr>email_token_requests := email_token_requests st @ [(userId, email)]\<rparr>)"

definition account_createSession :: "services \<Rightarrow> string \<Rightarrow> string \<Rightarrow> session action" where
  "account_createSession sv accountId password = respond (createSession_response sv accountId password)"

definition account_get :: "services \<Rightarrow> identity action" where
  "account_get sv = respond (account_get_response sv)"

definition account_deleteSession :: "services \<Rightarrow> string \<Rightarrow> unit action" where
  "account_deleteSession sv sessionId =
     (case deleteSession_response sv sessionId of Some e \<Rightarrow> throw e | None \<Rightarrow> returns ())"

text \<open>\<^verbatim>\<open>(await cookies()).set(name, value, options)\<close> and \<^verbatim>\<open>.delete(name)\<close>.\<close>

definition cookies_set :: "string \<Rightarrow> cookie \<Rightarrow> unit action" where
  "cookies_set name c st = (Returned (), st\<lparr>cookie_store := (cookie_store st)(name \<mapsto> c)\<rparr>)"

definition cookies_delete :: "string \<Rightarrow> unit action" where
  "cookies_delete name st = (Returned (), st\<lparr>cookie_store := (cookie_store st)(name := None)\<rparr>)"

section \<open>The user actions\<close>

text \<open>\<^verbatim>\<open>handleError\<close>: logs the error with the message, then throws the error again.\<close>

definition handleError :: "exn \<Rightarrow> string \<Rightarrow> unit action" where
  "handleError error message =
     await (console_log (Log_error error message)) (\<lambda>_. throw error)"

text \<open>\<^verbatim>\<open>getUserByEmail\<close>: the first document whose email is the given one, or null.\<close>

definition getUserByEmail :: "services \<Rightarrow> string \<Rightarrow> document option action" where
  "getUserByEmail sv email =
     await createAdminClient (\<lambda>_.
     await (listDocuments sv [Query_equal ''email'' [email]]) (\<lambda>result.
     returns (if dl_total result > 0
              then (case dl_documents result of [] \<Rightarrow> None | d # _ \<Rightarrow> Some d)
              else None)))"

text \<open>
  \<^verbatim>\<open>sendEmailOTP\<close>: the user identifier of the token; when the call fails the error is
  logged and thrown again (the function would return undefined if \<^verbatim>\<open>handleError\<close>
  returned).
\<close>

definition sendEmailOTP :: "services \<Rightarrow> string \<Rightarrow> string option action" where
  "sendEmailOTP sv email =
     await createAdminClient (\<lambda>_.
     try_catch
       (await (ID_unique sv) (\<lambda>userId.
        await (account_createEmailToken sv userId email) (\<lambda>session.
        returns (token_userId session))))
       (\<lambda>error. await (handleError error ''Failed to send email OTP'') (\<lambda>_. returns None)))"

text \<open>
  \<^verbatim>\<open>createAccount\<close>. The test \<^verbatim>\<open>!accountId\<close> holds of undefined and of the empty
  string; the document is created when the lookup answered null.
\<close>

definition createAccount :: "services \<Rightarrow> string \<Rightarrow> string \<Rightarrow> account_result action" where
  "createAccount sv fullName email =
     await (getUserByEmail sv email) (\<lambda>existingUser.
     await (sendEmailOTP sv email) (\<lambda>accountId.
     case accountId of
       None \<Rightarrow> throw (Error ''Failed to send an OTP'')
     | Some a \<Rightarrow>
         if a = [] then throw (Error ''Failed to send an OTP'')
         else
           await (case existingUser of
                    None \<Rightarrow>
                      await createAdminClient (\<lambda>_.
                      await (ID_unique sv) (\<lambda>docId.
                      await (createDocument sv docId fullName email avatarPlaceholderUrl a) (\<lambda>_.
                      returns ())))
                  | Some u \<Rightarrow> returns ()) (\<lambda>_.
           returns (parseStringify \<lparr>ar_accountId = a\<rparr>))))"

definition verifySecret :: "services \<Rightarrow> string \<Rightarrow> string \<Rightarrow> verify_result option action" where
  "verifySecret sv accountId password =
     try_catch
       (await createAdminClient (\<lambda>_.
        await (account_createSession sv accountId password) (\<lambda>session.
        await (cookies_set ''appwrite-session''
                 \<lparr>cookie_value = session_secret session, cookie_path = ''/'',
                  cookie_httpOnly = True, cookie_sameSite = Strict, cookie_secure = True\<rparr>) (\<lambda>_.
        returns (Some (parseStringify \<lparr>vr_sessionId = session_id session\<rparr>))))))
       (\<lambda>error. await (handleError error ''Failed to verify OTP'') (\<lambda>_. returns None))"

text \<open>
  \<^verbatim>\<open>getCurrentUser\<close>. No \<^verbatim>\<open>try\<close> surrounds its calls. Since \<^verbatim>\<open>listDocuments\<close> answers
  with \<open>total\<close> the number of its documents, the list is not empty where \<open>total\<close> is
  positive.
\<close>

definition getCurrentUser :: "services \<Rightarrow> document option action" where
  "getCurrentUser sv =
     await (createSessionClient sv) (\<lambda>_.
     await (account_get sv) (\<lambda>result.
     await (listDocuments sv [Query_equal ''accountId'' [identity_id result]]) (\<lambda>user.
     if dl_total user \<le> 0 then returns None
     else (case dl_documents user of
             [] \<Rightarrow> returns None
           | d # _ \<Rightarrow> returns (Some (parseStringify d))))))"

definition signOutUser :: "services \<Rightarrow> unit action" where
  "signOutUser sv =
     await (createSessionClient sv) (\<lambda>_.
     try_finally
       (try_catch
          (await (account_deleteSession sv ''current'') (\<lambda>_.
           await (cookies_delete ''appwrite-session'') (\<lambda>_.
           console_log (Log_message ''User logged out successfully''))))
          (\<lambda>error. handleError error ''Failed to sign out user''))
       (redirect ''/sign-in''))"

definition signInUser :: "services \<Rightarrow> string \<Rightarrow> sign_in_result option action" where
  "signInUser sv email =
     try_catch
       (await (getUserByEmail sv email) (\<lambda>existingUser.
        case existingUser of
          Some u \<Rightarrow>
            await (sendEmailOTP sv email) (\<lambda>_.
            returns (Some (parseStringify
              \<lparr>sir_accountId = Some (doc_accountId u), sir_error = None\<rparr>)))
        | None \<Rightarrow>
            returns (Some (parseStringify
              \<lparr>sir_accountId = None, sir_error = Some ''User not found''\<rparr>))))
       (\<lambda>error. await (handleError error ''Failed to sign in user'') (\<lambda>_. returns None))"

section \<open>Sequences of requests\<close>

text \<open>The exported actions, as the requests a caller can make one after the other.\<close>

datatype request =
    SendEmailOTP string
  | CreateAccount string string
  | VerifySecret string string
  | GetCurrentUser
  | SignOutUser
  | SignInUser string

fun perform :: "services \<Rightarrow> request \<Rightarrow> world \<Rightarrow> world" where
  "perform sv (SendEmailOTP email) st = snd (sendEmailOTP sv email st)"
| "perform sv (CreateAccount fullName email) st = snd (createAccount sv fullName email st)"
| "perform sv (VerifySecret accountId password) st = snd (verifySecret sv accountId password st)"
| "perform sv GetCurrentUser st = snd (getCurrentUser sv st)"
| "perform sv SignOutUser st = snd (signOutUser sv st)"
| "perform sv (SignInUser email) st = snd (signInUser sv email st)"

text \<open>
  Requests run to completion one at a time; the service may answer each request
  differently, so each comes with the service behaviour it meets.
\<close>

fun run :: "(services \<times> request) list \<Rightarrow> world \<Rightarrow> world" where
  "run [] st = st"
| "run ((sv, r) # rs) st = run rs (perform sv r st)"

definition is_CreateAccount :: "request \<Rightarrow> bool" where
  "is_CreateAccount r = (case r of CreateAccount fullName email \<Rightarrow> True | _ \<Rightarrow> False)"

text \<open>No two documents of the collection carry the same email.\<close>

definition one_profile_per_email :: "document list \<Rightarrow> bool" where
  "one_profile_per_email docs = distinct (map doc_email docs)"

section \<open>Concrete services and states\<close>

text \<open>A service where every call succeeds, and the one-time password is 123456.\<close>

definition sv_ok :: services where
  "sv_ok =
     \<lparr>ID_unique_values = (\<lambda>n. replicate (Suc n) CHR ''u''),
      listDocuments_fault = (\<lambda>qs. None),
      createDocument_fault = (\<lambda>i. None),
      createEmailToken_response = (\<lambda>i e. Inr \<lparr>token_userId = Some ''acct-7''\<rparr>),
      createSession_response =
        (\<lambda>a p. if p = ''123456''
                then Inr \<lparr>session_id = ''sess-1'', session_secret = ''s3cr3t''\<rparr>
                else Inl (ServiceError ''Invalid token'')),
      createSessionClient_response = Inr (),
      account_get_response = Inr \<lparr>identity_id = ''acct-1''\<rparr>,
      deleteSession_response = (\<lambda>s. None)\<rparr>"

definition unavailable :: exn where
  "unavailable = ServiceError ''unavailable''"

text \<open>The same service with one call failing.\<close>

definition sv_delete_fails :: services where
  "sv_delete_fails = sv_ok\<lparr>deleteSession_response := (\<lambda>s. Some unavailable)\<rparr>"

definition sv_no_session :: services where
  "sv_no_session = sv_ok\<lparr>createSessionClient_response := Inl (Error ''No session'')\<rparr>"

definition sv_no_identity :: services where
  "sv_no_identity = sv_ok\<lparr>account_get_response := Inl unavailable\<rparr>"

definition sv_otp_fails :: services where
  "sv_otp_fails = sv_ok\<lparr>createEmailToken_response := (\<lambda>i e. Inl unavailable)\<rparr>"

definition sv_otp_empty :: services where
  "sv_otp_empty = sv_ok\<lparr>createEmailToken_response := (\<lambda>i e. Inr \<lparr>token_userId = Some []\<rparr>)\<rparr>"

definition sv_otp_absent :: services where
  "sv_otp_absent = sv_ok\<lparr>createEmailToken_response := (\<lambda>i e. Inr \<lparr>token_userId = None\<rparr>)\<rparr>"

text \<open>Every call succeeds, and the session that is created carries an empty \<^verbatim>\<open>$id\<close>.\<close>

definition sv_empty_session_id :: services where
  "sv_empty_session_id =
     sv_ok\<lparr>createSession_response :=
       (\<lambda>a p. Inr \<lparr>session_id = [], session_secret = ''s3cr3t''\<rparr>)\<rparr>"

definition alice :: document where
  "alice = \<lparr>doc_id = ''doc-1'', doc_fullName = ''Alice'', doc_email = ''alice@example.com'',
            doc_avatar = ''a.png'', doc_accountId = ''acct-1''\<rparr>"

definition session_cookie :: cookie where
  "session_cookie = \<lparr>cookie_value = ''s3cr3t'', cookie_path = ''/'', cookie_httpOnly = True,
                     cookie_sameSite = Strict, cookie_secure = True\<rparr>"

text \<open>Nobody registered, no cookie.\<close>

definition world_empty :: world where
  "world_empty = \<lparr>users_collection = [], cookie_store = Map.empty, email_token_requests = [],
                  console = [], id_counter = 0\<rparr>"

text \<open>Alice registered and signed in.\<close>

definition world_alice :: world where
  "world_alice = \<lparr>users_collection = [alice],
                  cookie_store = [''appwrite-session'' \<mapsto> session_cookie],
                  email_token_requests = [], console = [], id_counter = 0\<rparr>"

text \<open>The document that \<^verbatim>\<open>createAccount\<close> makes for Bob when Alice alone is registered.\<close>

definition bob :: document where
  "bob = \<lparr>doc_id = ''uu'', doc_fullName = ''Bob'', doc_email = ''bob@example.com'',
          doc_avatar = avatarPlaceholderUrl, doc_accountId = ''acct-7''\<rparr>"

text \<open>Bob signs up, signs in, fails to sign out, asks for a new password and signs up again.\<close>

definition requests_example :: "(services \<times> request) list" where
  "requests_example =
     [(sv_ok, CreateAccount ''Bob'' ''bob@example.com''),
      (sv_ok, VerifySecret ''acct-7'' ''123456''),
      (sv_ok, GetCurrentUser),
      (sv_delete_fails, SignOutUser),
      (sv_ok, SignInUser ''bob@example.com''),
      (sv_ok, CreateAccount ''Robert'' ''bob@example.com'')]"

section \<open>Unfolding the actions\<close>

lemmas control_defs = returns_def throw_def await_def try_catch_def try_finally_def respond_def

lemmas collaborator_defs = console_log_def parseStringify_def redirect_def ID_unique_def
  createAdminClient_def createSessionClient_def listDocuments_def createDocument_def
  account_createEmailToken_def account_createSession_def account_get_def
  account_deleteSession_def cookies_set_def cookies_delete_def handleError_def

lemmas fixture_defs = sv_ok_def unavailable_def sv_delete_fails_def sv_no_session_def
  sv_no_identity_def sv_otp_fails_def sv_otp_empty_def sv_otp_absent_def
  sv_empty_session_id_def alice_def
  session_cookie_def world_empty_def world_alice_def bob_def

text \<open>
  Each action, run through its control flow once: which answer of the service leads to
  which completion and which state. The theorems below read these off.
\<close>

lemma signOutUser_unfold:
  "signOutUser sv st =
     (case createSessionClient_response sv of
        Inl e \<Rightarrow> (Thrown e, st)
      | Inr c \<Rightarrow>
          (case deleteSession_response sv ''current'' of
             None \<Rightarrow>
               (Thrown (NEXT_REDIRECT ''/sign-in''),
                st\<lparr>cookie_store := (cookie_store st)(''appwrite-session'' := None),
                   console := console st @ [Log_message ''User logged out successfully'']\<rparr>)
           | Some e \<Rightarrow>
               (Thrown (NEXT_REDIRECT ''/sign-in''),
                st\<lparr>console := console st @ [Log_error e ''Failed to sign out user'']\<rparr>)))"
  by (simp add: signOutUser_def control_defs collaborator_defs split: sum.split option.split)

lemma first_match:
  "(case filter P xs of [] \<Rightarrow> None | d # ds \<Rightarrow> Some d) = List.find P xs"
  by (induction xs) auto

lemma find_None_filter: "(List.find P xs = None) = (filter P xs = [])"
  by (induction xs) auto

lemma matches_email: "matches d (Query_equal ''email'' [email]) = (doc_email d = email)"
  by (auto simp: attribute_def)

lemma matches_accountId: "matches d (Query_equal ''accountId'' [a]) = (doc_accountId d = a)"
  by (auto simp: attribute_def)

lemma listDocuments_email:
  "listDocuments sv [Query_equal ''email'' [email]] st =
     (case listDocuments_fault sv [Query_equal ''email'' [email]] of
        Some e \<Rightarrow> (Thrown e, st)
      | None \<Rightarrow>
          (Returned \<lparr>dl_total = length (filter (\<lambda>d. doc_email d = email) (users_collection st)),
                     dl_documents = filter (\<lambda>d. doc_email d = email) (users_collection st)\<rparr>, st))"
  by (simp add: listDocuments_def Let_def matches_email del: matches.simps split: option.split)

lemma listDocuments_accountId:
  "listDocuments sv [Query_equal ''accountId'' [a]] st =
     (case listDocuments_fault sv [Query_equal ''accountId'' [a]] of
        Some e \<Rightarrow> (Thrown e, st)
      | None \<Rightarrow>
          (Returned \<lparr>dl_total = length (filter (\<lambda>d. doc_accountId d = a) (users_collection st)),
                     dl_documents = filter (\<lambda>d. doc_accountId d = a) (users_collection st)\<rparr>, st))"
  by (simp add: listDocuments_def Let_def matches_accountId del: matches.simps split: option.split)

lemma getUserByEmail_unfold:
  "getUserByEmail sv email st =
     (case listDocuments_fault sv [Query_equal ''email'' [email]] of
        Some e \<Rightarrow> (Thrown e, st)
      | None \<Rightarrow> (Returned (List.find (\<lambda>d. doc_email d = email) (users_collection st)), st))"
  by (simp add: getUserByEmail_def control_defs createAdminClient_def listDocuments_email
      first_match find_None_filter [symmetric] split: option.split)

lemma sendEmailOTP_unfold:
  "sendEmailOTP sv email st =
     (case createEmailToken_response sv (ID_unique_values sv (id_counter st)) email of
        Inl e \<Rightarrow>
          (Thrown e,
           st\<lparr>id_counter := Suc (id_counter st),
              email_token_requests :=
                email_token_requests st @ [(ID_unique_values sv (id_counter st), email)],
              console := console st @ [Log_error e ''Failed to send email OTP'']\<rparr>)
      | Inr tok \<Rightarrow>
          (Returned (token_userId tok),
           st\<lparr>id_counter := Suc (id_counter st),
              email_token_requests :=
                email_token_requests st @ [(ID_unique_values sv (id_counter st), email)]\<rparr>))"
  by (simp add: sendEmailOTP_def control_defs collaborator_defs split: sum.split)

lemma createAccount_unfold:
  "createAccount sv fullName email st =
     (case listDocuments_fault sv [Query_equal ''email'' [email]] of
        Some e \<Rightarrow> (Thrown e, st)
      | None \<Rightarrow>
         (case sendEmailOTP sv email st of
            (Thrown e, st1) \<Rightarrow> (Thrown e, st1)
          | (Returned None, st1) \<Rightarrow> (Thrown (Error ''Failed to send an OTP''), st1)
          | (Returned (Some a), st1) \<Rightarrow>
              if a = [] then (Thrown (Error ''Failed to send an OTP''), st1)
              else (case List.find (\<lambda>d. doc_email d = email) (users_collection st) of
                      Some u \<Rightarrow> (Returned \<lparr>ar_accountId = a\<rparr>, st1)
                    | None \<Rightarrow>
                       (case createDocument_fault sv (ID_unique_values sv (id_counter st1)) of
                          Some e \<Rightarrow> (Thrown e, st1\<lparr>id_counter := Suc (id_counter st1)\<rparr>)
                        | None \<Rightarrow>
                           (Returned \<lparr>ar_accountId = a\<rparr>,
                            st1\<lparr>id_counter := Suc (id_counter st1),
                               users_collection := users_collection st @
                                 [\<lparr>doc_id = ID_unique_values sv (id_counter st1),
                                   doc_fullName = fullName, doc_email = email,
                                   doc_avatar = avatarPlaceholderUrl, doc_accountId = a\<rparr>]\<rparr>)))))"
  apply (simp add: createAccount_def getUserByEmail_unfold await_def split: option.split)
  apply (simp add: sendEmailOTP_unfold createDocument_def ID_unique_def createAdminClient_def
      parseStringify_def Let_def control_defs split: sum.split option.split)
  done

lemma verifySecret_unfold:
  "verifySecret sv accountId password st =
     (case createSession_response sv accountId password of
        Inl e \<Rightarrow> (Thrown e, st\<lparr>console := console st @ [Log_error e ''Failed to verify OTP'']\<rparr>)
      | Inr s \<Rightarrow>
          (Returned (Some \<lparr>vr_sessionId = session_id s\<rparr>),
           st\<lparr>cookie_store := (cookie_store st)(''appwrite-session'' \<mapsto>
                \<lparr>cookie_value = session_secret s, cookie_path = ''/'', cookie_httpOnly = True,
                 cookie_sameSite = Strict, cookie_secure = True\<rparr>)\<rparr>))"
  by (simp add: verifySecret_def control_defs collaborator_defs split: sum.split)

lemma getCurrentUser_unfold:
  "getCurrentUser sv st =
     (case createSessionClient_response sv of
        Inl e \<Rightarrow> (Thrown e, st)
      | Inr c \<Rightarrow>
          (case account_get_response sv of
             Inl e \<Rightarrow> (Thrown e, st)
           | Inr i \<Rightarrow>
               (case listDocuments_fault sv [Query_equal ''accountId'' [identity_id i]] of
                  Some e \<Rightarrow> (Thrown e, st)
                | None \<Rightarrow>
                    (Returned (List.find (\<lambda>d. doc_accountId d = identity_id i) (users_collection st)),
                     st))))"
  apply (simp add: getCurrentUser_def control_defs createSessionClient_def account_get_def
      listDocuments_accountId parseStringify_def split: sum.split option.split)
  apply (auto simp: first_match [symmetric] returns_def parseStringify_def split: list.split)
  done

lemma signInUser_unfold:
  "signInUser sv email st =
     (case listDocuments_fault sv [Query_equal ''email'' [email]] of
        Some e \<Rightarrow> (Thrown e, st\<lparr>console := console st @ [Log_error e ''Failed to sign in user'']\<rparr>)
      | None \<Rightarrow>
          (case List.find (\<lambda>d. doc_email d = email) (users_collection st) of
             None \<Rightarrow>
               (Returned (Some \<lparr>sir_accountId = None, sir_error = Some ''User not found''\<rparr>), st)
           | Some u \<Rightarrow>
               (case sendEmailOTP sv email st of
                  (Returned x, st1) \<Rightarrow>
                    (Returned (Some \<lparr>sir_accountId = Some (doc_accountId u), sir_error = None\<rparr>), st1)
                | (Thrown e, st1) \<Rightarrow>
                    (Thrown e, st1\<lparr>console := console st1 @ [Log_error e ''Failed to sign in user'']\<rparr>))))"
  by (simp add: signInUser_def getUserByEmail_unfold control_defs console_log_def handleError_def
      parseStringify_def split: option.split outcome.split prod.split)

lemma find_None_image: "(List.find (\<lambda>d. f d = v) xs = None) = (v \<notin> f ` set xs)"
  by (induction xs) auto

section \<open>Signing out\<close>

text \<open>
  C1, as amended. The cookie \<^verbatim>\<open>appwrite-session\<close> is deleted inside the \<^verbatim>\<open>try\<close> block,
  after \<^verbatim>\<open>account.deleteSession("current")\<close>; the \<^verbatim>\<open>finally\<close> block holds the redirect
  only. So the cookie is absent after \<^verbatim>\<open>signOutUser\<close> when the session-deletion call
  succeeds, and the cookie store is left as it was when the session-deletion call fails,
  and also when the session client cannot be obtained.
\<close>

theorem signOutUser_cookie:
  "(createSessionClient_response sv = Inr c \<and> deleteSession_response sv ''current'' = None \<longrightarrow>
      cookie_store (snd (signOutUser sv st)) ''appwrite-session'' = None) \<and>
   (createSessionClient_response sv = Inr c \<and> deleteSession_response sv ''current'' = Some e \<longrightarrow>
      cookie_store (snd (signOutUser sv st)) = cookie_store st) \<and>
   (createSessionClient_response sv = Inl e \<longrightarrow>
      cookie_store (snd (signOutUser sv st)) = cookie_store st)"
  by (simp add: signOutUser_unfold)

text \<open>The three cases at concrete services, Alice being signed in.\<close>

theorem signOutUser_cookie_witness:
  "createSessionClient_response sv_ok = Inr () \<and> deleteSession_response sv_ok ''current'' = None \<and>
   cookie_store (snd (signOutUser sv_ok world_alice)) ''appwrite-session'' = None \<and>
   createSessionClient_response sv_delete_fails = Inr () \<and>
   deleteSession_response sv_delete_fails ''current'' = Some unavailable \<and>
   cookie_store (snd (signOutUser sv_delete_fails world_alice)) = cookie_store world_alice \<and>
   createSessionClient_response sv_no_session = Inl (Error ''No session'') \<and>
   cookie_store (snd (signOutUser sv_no_session world_alice)) = cookie_store world_alice"
  using signOutUser_cookie [where sv = sv_ok and st = world_alice and c = "()"]
    signOutUser_cookie [where sv = sv_delete_fails and st = world_alice and c = "()" and e = unavailable]
    signOutUser_cookie [where sv = sv_no_session and st = world_alice and e = "Error ''No session''"]
  by (simp add: fixture_defs)

text \<open>
  C1 as stated fails: with Alice signed in and a session-deletion call that fails,
  \<^verbatim>\<open>signOutUser\<close> ends with the redirect and the cookie is still in the store.
\<close>

theorem signOutUser_cookie_counterexample:
  "deleteSession_response sv_delete_fails ''current'' = Some unavailable \<and>
   fst (signOutUser sv_delete_fails world_alice) = Thrown (NEXT_REDIRECT ''/sign-in'') \<and>
   cookie_store (snd (signOutUser sv_delete_fails world_alice)) ''appwrite-session''
     = Some session_cookie"
  by (simp add: signOutUser_unfold fixture_defs)

text \<open>
  C2, as amended. The session client is obtained before the \<^verbatim>\<open>try\<close> statement. Once it
  is obtained, \<^verbatim>\<open>signOutUser\<close> ends by redirecting to \<^verbatim>\<open>/sign-in\<close>, whether the
  session-deletion call succeeds or fails: the redirect of the \<^verbatim>\<open>finally\<close> block replaces
  the error thrown again by the \<^verbatim>\<open>catch\<close> block. When the session client cannot be
  obtained, \<^verbatim>\<open>signOutUser\<close> throws that error, does not redirect and leaves the state as
  it was.
\<close>

theorem signOutUser_redirects:
  "(createSessionClient_response sv = Inr c \<longrightarrow>
      fst (signOutUser sv st) = Thrown (NEXT_REDIRECT ''/sign-in'')) \<and>
   (createSessionClient_response sv = Inl e \<longrightarrow> signOutUser sv st = (Thrown e, st))"
  by (simp add: signOutUser_unfold split: option.split)

text \<open>Both answers of the session-deletion call, and no session.\<close>

theorem signOutUser_redirects_witness:
  "createSessionClient_response sv_ok = Inr () \<and>
   deleteSession_response sv_ok ''current'' = None \<and>
   fst (signOutUser sv_ok world_alice) = Thrown (NEXT_REDIRECT ''/sign-in'') \<and>
   createSessionClient_response sv_delete_fails = Inr () \<and>
   deleteSession_response sv_delete_fails ''current'' = Some unavailable \<and>
   fst (signOutUser sv_delete_fails world_alice) = Thrown (NEXT_REDIRECT ''/sign-in'') \<and>
   createSessionClient_response sv_no_session = Inl (Error ''No session'') \<and>
   signOutUser sv_no_session world_alice = (Thrown (Error ''No session''), world_alice)"
  using signOutUser_redirects [where sv = sv_ok and st = world_alice and c = "()"]
    signOutUser_redirects [where sv = sv_delete_fails and st = world_alice and c = "()"]
    signOutUser_redirects [where sv = sv_no_session and st = world_alice
      and e = "Error ''No session''"]
  by (simp add: fixture_defs)

text \<open>
  C2 as stated fails: when the session lookup finds no session, \<^verbatim>\<open>signOutUser\<close> ends with
  that error and not with the redirect.
\<close>

theorem signOutUser_redirects_counterexample:
  "createSessionClient_response sv_no_session = Inl (Error ''No session'') \<and>
   fst (signOutUser sv_no_session world_alice) = Thrown (Error ''No session'') \<and>
   fst (signOutUser sv_no_session world_alice) \<noteq> Thrown (NEXT_REDIRECT ''/sign-in'')"
  by (simp add: signOutUser_unfold fixture_defs)

section \<open>Verifying the one-time password\<close>

text \<open>
  C3, as amended. When session creation succeeds, \<^verbatim>\<open>verifySecret\<close> returns the \<^verbatim>\<open>$id\<close> of
  the created session as the service gave it, without testing it, and changes the state
  only by setting the cookie \<^verbatim>\<open>appwrite-session\<close> to the session secret with path \<^verbatim>\<open>/\<close>,
  httpOnly, secure and sameSite strict. When session creation fails, \<^verbatim>\<open>verifySecret\<close>
  throws that error and the cookie store is unchanged.
\<close>

theorem verifySecret_cookie:
  "(createSession_response sv accountId password = Inr s \<longrightarrow>
      fst (verifySecret sv accountId password st) = Returned (Some \<lparr>vr_sessionId = session_id s\<rparr>) \<and>
      snd (verifySecret sv accountId password st) =
        st\<lparr>cookie_store := (cookie_store st)(''appwrite-session'' \<mapsto>
             \<lparr>cookie_value = session_secret s, cookie_path = ''/'', cookie_httpOnly = True,
              cookie_sameSite = Strict, cookie_secure = True\<rparr>)\<rparr>) \<and>
   (createSession_response sv accountId password = Inl e \<longrightarrow>
      fst (verifySecret sv accountId password st) = Thrown e \<and>
      cookie_store (snd (verifySecret sv accountId password st)) = cookie_store st)"
  by (simp add: verifySecret_unfold)

text \<open>The right and a wrong one-time password, no cookie being set before.\<close>

theorem verifySecret_cookie_witness:
  "createSession_response sv_ok ''acct-1'' ''123456''
     = Inr \<lparr>session_id = ''sess-1'', session_secret = ''s3cr3t''\<rparr> \<and>
   fst (verifySecret sv_ok ''acct-1'' ''123456'' world_empty)
     = Returned (Some \<lparr>vr_sessionId = ''sess-1''\<rparr>) \<and>
   cookie_store (snd (verifySecret sv_ok ''acct-1'' ''123456'' world_empty)) ''appwrite-session''
     = Some session_cookie \<and>
   createSession_response sv_ok ''acct-1'' ''000000'' = Inl (ServiceError ''Invalid token'') \<and>
   fst (verifySecret sv_ok ''acct-1'' ''000000'' world_empty)
     = Thrown (ServiceError ''Invalid token'') \<and>
   cookie_store (snd (verifySecret sv_ok ''acct-1'' ''000000'' world_empty)) ''appwrite-session''
     = None"
  using verifySecret_cookie [where sv = sv_ok and accountId = "''acct-1''" and password = "''123456''"
      and st = world_empty and s = "\<lparr>session_id = ''sess-1'', session_secret = ''s3cr3t''\<rparr>"]
    verifySecret_cookie [where sv = sv_ok and accountId = "''acct-1''" and password = "''000000''"
      and st = world_empty and e = "ServiceError ''Invalid token''"]
  by (simp add: fixture_defs)

text \<open>
  C3 as stated fails: session creation succeeds with a session whose \<^verbatim>\<open>$id\<close> is empty, the
  cookie is set, and the session identifier that \<^verbatim>\<open>verifySecret\<close> returns is empty.
\<close>

theorem verifySecret_cookie_counterexample:
  "createSession_response sv_empty_session_id ''acct-1'' ''123456''
     = Inr \<lparr>session_id = [], session_secret = ''s3cr3t''\<rparr> \<and>
   fst (verifySecret sv_empty_session_id ''acct-1'' ''123456'' world_empty)
     = Returned (Some \<lparr>vr_sessionId = []\<rparr>) \<and>
   cookie_store (snd (verifySecret sv_empty_session_id ''acct-1'' ''123456'' world_empty))
     ''appwrite-session'' = Some session_cookie"
  by (simp add: verifySecret_unfold fixture_defs)

section \<open>Creating an account\<close>

text \<open>
  C4. An account identifier that \<^verbatim>\<open>createAccount\<close> returns is never empty. When the lookup
  answers and the passcode is issued with a non-empty account identifier: for an email
  without a profile (the document creation succeeding), \<^verbatim>\<open>createAccount\<close> appends exactly
  one document, carrying that email, the given full name, the default avatar and the
  account identifier, which makes it the only document with that email, and returns the
  account identifier; for an email with a profile, the collection is unchanged and the
  account identifier is returned all the same.
\<close>

theorem createAccount_profile:
  "(\<forall>r. fst (createAccount sv fullName email st) = Returned r \<longrightarrow> ar_accountId r \<noteq> []) \<and>
   (listDocuments_fault sv [Query_equal ''email'' [email]] = None \<and>
   createEmailToken_response sv (ID_unique_values sv (id_counter st)) email = Inr tok \<and>
   token_userId tok = Some a \<and> a \<noteq> [] \<longrightarrow>
     (email \<notin> doc_email ` set (users_collection st) \<and>
      createDocument_fault sv (ID_unique_values sv (Suc (id_counter st))) = None \<longrightarrow>
        fst (createAccount sv fullName email st) = Returned \<lparr>ar_accountId = a\<rparr> \<and>
        users_collection (snd (createAccount sv fullName email st)) =
          users_collection st @
            [\<lparr>doc_id = ID_unique_values sv (Suc (id_counter st)), doc_fullName = fullName,
              doc_email = email, doc_avatar = avatarPlaceholderUrl, doc_accountId = a\<rparr>] \<and>
        length (filter (\<lambda>d. doc_email d = email)
                  (users_collection (snd (createAccount sv fullName email st)))) = 1) \<and>
     (email \<in> doc_email ` set (users_collection st) \<longrightarrow>
        fst (createAccount sv fullName email st) = Returned \<lparr>ar_accountId = a\<rparr> \<and>
        users_collection (snd (createAccount sv fullName email st)) = users_collection st))"
proof -
  have nonempty: "\<forall>r. fst (createAccount sv fullName email st) = Returned r \<longrightarrow> ar_accountId r \<noteq> []"
    by (auto simp: createAccount_unfold sendEmailOTP_unfold
        split: option.splits sum.splits if_splits)
  have absent: "filter (\<lambda>d. doc_email d = email) xs = []" if "email \<notin> doc_email ` set xs"
    for xs :: "document list"
    using that by (induction xs) auto
  show ?thesis
  proof (cases "List.find (\<lambda>d. doc_email d = email) (users_collection st)")
    case None
    then have "email \<notin> doc_email ` set (users_collection st)"
      by (simp add: find_None_image)
    with None nonempty show ?thesis
      by (simp add: createAccount_unfold sendEmailOTP_unfold absent)
  next
    case (Some u)
    then have "email \<in> doc_email ` set (users_collection st)"
      using find_None_image [of doc_email email "users_collection st"] by simp
    with Some nonempty show ?thesis
      by (simp add: createAccount_unfold sendEmailOTP_unfold)
  qed
qed

text \<open>Bob, who is new, and Alice, who is registered.\<close>

theorem createAccount_profile_witness:
  "listDocuments_fault sv_ok [Query_equal ''email'' [''bob@example.com'']] = None \<and>
   createEmailToken_response sv_ok (ID_unique_values sv_ok (id_counter world_alice))
     ''bob@example.com'' = Inr \<lparr>token_userId = Some ''acct-7''\<rparr> \<and>
   ''bob@example.com'' \<notin> doc_email ` set (users_collection world_alice) \<and>
   createDocument_fault sv_ok (ID_unique_values sv_ok (Suc (id_counter world_alice))) = None \<and>
   fst (createAccount sv_ok ''Bob'' ''bob@example.com'' world_alice)
     = Returned \<lparr>ar_accountId = ''acct-7''\<rparr> \<and>
   users_collection (snd (createAccount sv_ok ''Bob'' ''bob@example.com'' world_alice))
     = [alice, bob] \<and>
   ''alice@example.com'' \<in> doc_email ` set (users_collection world_alice) \<and>
   fst (createAccount sv_ok ''Alice'' ''alice@example.com'' world_alice)
     = Returned \<lparr>ar_accountId = ''acct-7''\<rparr> \<and>
   users_collection (snd (createAccount sv_ok ''Alice'' ''alice@example.com'' world_alice))
     = [alice]"
  using createAccount_profile [where sv = sv_ok and st = world_alice and fullName = "''Bob''"
      and email = "''bob@example.com''" and tok = "\<lparr>token_userId = Some ''acct-7''\<rparr>"
      and a = "''acct-7''"]
    createAccount_profile [where sv = sv_ok and st = world_alice and fullName = "''Alice''"
      and email = "''alice@example.com''" and tok = "\<lparr>token_userId = Some ''acct-7''\<rparr>"
      and a = "''acct-7''"]
  by (simp add: fixture_defs)

text \<open>
  C5. A call of \<^verbatim>\<open>createAccount\<close> whose lookup answers makes exactly one request for an
  email token, for the given email, whether or not the lookup found a profile (and
  whatever the request is answered).
\<close>

theorem createAccount_sends_once:
  "listDocuments_fault sv [Query_equal ''email'' [email]] = None \<Longrightarrow>
   email_token_requests (snd (createAccount sv fullName email st)) =
     email_token_requests st @ [(ID_unique_values sv (id_counter st), email)]"
  by (simp add: createAccount_unfold sendEmailOTP_unfold split: option.split sum.split)

text \<open>One request for Bob, who has no profile, and one for Alice, who has.\<close>

theorem createAccount_sends_once_witness:
  "listDocuments_fault sv_ok [Query_equal ''email'' [''bob@example.com'']] = None \<and>
   email_token_requests (snd (createAccount sv_ok ''Bob'' ''bob@example.com'' world_alice))
     = [(''u'', ''bob@example.com'')] \<and>
   listDocuments_fault sv_ok [Query_equal ''email'' [''alice@example.com'']] = None \<and>
   email_token_requests (snd (createAccount sv_ok ''Alice'' ''alice@example.com'' world_alice))
     = [(''u'', ''alice@example.com'')]"
proof -
  have lookup: "listDocuments_fault sv_ok [Query_equal ''email'' [email]] = None" for email
    by (simp add: fixture_defs)
  show ?thesis
    using createAccount_sends_once [OF lookup, of "''Bob''" "''bob@example.com''" world_alice]
      createAccount_sends_once [OF lookup, of "''Alice''" "''alice@example.com''" world_alice]
      lookup
    by (simp add: fixture_defs)
qed

text \<open>
  C6. When the passcode issuance fails, \<^verbatim>\<open>createAccount\<close> throws and creates no document:
  if the email-token call fails, the error of that call is thrown again; if it answers
  with an absent or empty user identifier, \<^verbatim>\<open>Error("Failed to send an OTP")\<close> is thrown.
\<close>

theorem createAccount_otp_failure:
  "listDocuments_fault sv [Query_equal ''email'' [email]] = None \<longrightarrow>
     (createEmailToken_response sv (ID_unique_values sv (id_counter st)) email = Inl e \<longrightarrow>
        fst (createAccount sv fullName email st) = Thrown e \<and>
        users_collection (snd (createAccount sv fullName email st)) = users_collection st) \<and>
     (createEmailToken_response sv (ID_unique_values sv (id_counter st)) email = Inr tok \<and>
      (token_userId tok = None \<or> token_userId tok = Some []) \<longrightarrow>
        fst (createAccount sv fullName email st) = Thrown (Error ''Failed to send an OTP'') \<and>
        users_collection (snd (createAccount sv fullName email st)) = users_collection st)"
  by (auto simp: createAccount_unfold sendEmailOTP_unfold)

text \<open>A failing call, an empty identifier and an absent one, for Bob who has no profile.\<close>

theorem createAccount_otp_failure_witness:
  "listDocuments_fault sv_otp_fails [Query_equal ''email'' [''bob@example.com'']] = None \<and>
   createEmailToken_response sv_otp_fails (ID_unique_values sv_otp_fails (id_counter world_alice))
     ''bob@example.com'' = Inl unavailable \<and>
   fst (createAccount sv_otp_fails ''Bob'' ''bob@example.com'' world_alice) = Thrown unavailable \<and>
   users_collection (snd (createAccount sv_otp_fails ''Bob'' ''bob@example.com'' world_alice))
     = [alice] \<and>
   listDocuments_fault sv_otp_empty [Query_equal ''email'' [''bob@example.com'']] = None \<and>
   createEmailToken_response sv_otp_empty (ID_unique_values sv_otp_empty (id_counter world_alice))
     ''bob@example.com'' = Inr \<lparr>token_userId = Some []\<rparr> \<and>
   fst (createAccount sv_otp_empty ''Bob'' ''bob@example.com'' world_alice)
     = Thrown (Error ''Failed to send an OTP'') \<and>
   users_collection (snd (createAccount sv_otp_empty ''Bob'' ''bob@example.com'' world_alice))
     = [alice] \<and>
   createEmailToken_response sv_otp_absent (ID_unique_values sv_otp_absent (id_counter world_alice))
     ''bob@example.com'' = Inr \<lparr>token_userId = None\<rparr> \<and>
   fst (createAccount sv_otp_absent ''Bob'' ''bob@example.com'' world_alice)
     = Thrown (Error ''Failed to send an OTP'') \<and>
   users_collection (snd (createAccount sv_otp_absent ''Bob'' ''bob@example.com'' world_alice))
     = [alice]"
  using createAccount_otp_failure [where sv = sv_otp_fails and st = world_alice
      and fullName = "''Bob''" and email = "''bob@example.com''" and e = unavailable]
    createAccount_otp_failure [where sv = sv_otp_empty and st = world_alice
      and fullName = "''Bob''" and email = "''bob@example.com''"
      and tok = "\<lparr>token_userId = Some []\<rparr>"]
    createAccount_otp_failure [where sv = sv_otp_absent and st = world_alice
      and fullName = "''Bob''" and email = "''bob@example.com''"
      and tok = "\<lparr>token_userId = None\<rparr>"]
  by (simp add: fixture_defs)

section \<open>The current user\<close>

text \<open>
  C7. \<^verbatim>\<open>getCurrentUser\<close> without a session throws the error of the session lookup (or of
  the identity lookup) and leaves the state, console included, as it was: nothing catches
  it. With a session whose account identifier no document carries it returns null; with
  a session and a matching document it returns a document of the collection whose
  \<^verbatim>\<open>accountId\<close> is the session's account identifier.
\<close>

theorem getCurrentUser_cases:
  "(createSessionClient_response sv = Inl e \<longrightarrow> getCurrentUser sv st = (Thrown e, st)) \<and>
   (createSessionClient_response sv = Inr c \<and> account_get_response sv = Inl e \<longrightarrow>
      getCurrentUser sv st = (Thrown e, st)) \<and>
   (createSessionClient_response sv = Inr c \<and> account_get_response sv = Inr i \<and>
    listDocuments_fault sv [Query_equal ''accountId'' [identity_id i]] = None \<longrightarrow>
      (identity_id i \<notin> doc_accountId ` set (users_collection st) \<longrightarrow>
         getCurrentUser sv st = (Returned None, st)) \<and>
      (identity_id i \<in> doc_accountId ` set (users_collection st) \<longrightarrow>
         (\<exists>d. getCurrentUser sv st = (Returned (Some d), st) \<and>
              d \<in> set (users_collection st) \<and> doc_accountId d = identity_id i)))"
proof -
  have found: "\<exists>d. List.find (\<lambda>d. doc_accountId d = v) xs = Some d \<and> d \<in> set xs \<and> doc_accountId d = v"
    if "v \<in> doc_accountId ` set xs" for v and xs :: "document list"
    using that by (induction xs) auto
  show ?thesis
    using found [of "identity_id i" "users_collection st"]
    by (auto simp: getCurrentUser_unfold find_None_image)
qed

text \<open>No session, no identity, a session without a profile, and Alice's session.\<close>

theorem getCurrentUser_cases_witness:
  "createSessionClient_response sv_no_session = Inl (Error ''No session'') \<and>
   getCurrentUser sv_no_session world_alice = (Thrown (Error ''No session''), world_alice) \<and>
   createSessionClient_response sv_no_identity = Inr () \<and>
   account_get_response sv_no_identity = Inl unavailable \<and>
   getCurrentUser sv_no_identity world_alice = (Thrown unavailable, world_alice) \<and>
   createSessionClient_response sv_ok = Inr () \<and>
   account_get_response sv_ok = Inr \<lparr>identity_id = ''acct-1''\<rparr> \<and>
   listDocuments_fault sv_ok [Query_equal ''accountId'' [''acct-1'']] = None \<and>
   ''acct-1'' \<notin> doc_accountId ` set (users_collection world_empty) \<and>
   getCurrentUser sv_ok world_empty = (Returned None, world_empty) \<and>
   ''acct-1'' \<in> doc_accountId ` set (users_collection world_alice) \<and>
   getCurrentUser sv_ok world_alice = (Returned (Some alice), world_alice)"
  using getCurrentUser_cases [where sv = sv_no_session and st = world_alice
      and e = "Error ''No session''"]
    getCurrentUser_cases [where sv = sv_no_identity and st = world_alice and c = "()"
      and e = unavailable]
    getCurrentUser_cases [where sv = sv_ok and st = world_empty and c = "()"
      and i = "\<lparr>identity_id = ''acct-1''\<rparr>"]
    getCurrentUser_cases [where sv = sv_ok and st = world_alice and c = "()"
      and i = "\<lparr>identity_id = ''acct-1''\<rparr>"]
  by (auto simp: fixture_defs)

section \<open>Signing in\<close>

text \<open>
  C8. When the lookup answers: for an email with a profile, \<^verbatim>\<open>signInUser\<close> makes exactly
  one request for an email token and, that request succeeding, returns \<^verbatim>\<open>{accountId}\<close>
  with the \<^verbatim>\<open>accountId\<close> of the first document carrying that email, and no error field;
  for an email without a profile it returns
  \<^verbatim>\<open>{accountId: null, error: "User not found"}\<close> without throwing, makes no request and
  leaves the state as it was.
\<close>

theorem signInUser_cases:
  "listDocuments_fault sv [Query_equal ''email'' [email]] = None \<longrightarrow>
     (email \<in> doc_email ` set (users_collection st) \<longrightarrow>
        email_token_requests (snd (signInUser sv email st)) =
          email_token_requests st @ [(ID_unique_values sv (id_counter st), email)] \<and>
        (createEmailToken_response sv (ID_unique_values sv (id_counter st)) email = Inr tok \<longrightarrow>
           (\<exists>u. List.find (\<lambda>d. doc_email d = email) (users_collection st) = Some u \<and>
                u \<in> set (users_collection st) \<and> doc_email u = email \<and>
                fst (signInUser sv email st) =
                  Returned (Some \<lparr>sir_accountId = Some (doc_accountId u), sir_error = None\<rparr>)))) \<and>
     (email \<notin> doc_email ` set (users_collection st) \<longrightarrow>
        signInUser sv email st =
          (Returned (Some \<lparr>sir_accountId = None, sir_error = Some ''User not found''\<rparr>), st))"
proof -
  have found: "\<exists>u. List.find (\<lambda>d. doc_email d = v) xs = Some u \<and> u \<in> set xs \<and> doc_email u = v"
    if "v \<in> doc_email ` set xs" for v and xs :: "document list"
    using that by (induction xs) auto
  show ?thesis
  proof (cases "email \<in> doc_email ` set (users_collection st)")
    case True
    from found [OF True] obtain u where
      u: "List.find (\<lambda>d. doc_email d = email) (users_collection st) = Some u"
        "u \<in> set (users_collection st)" "doc_email u = email"
      by blast
    with True show ?thesis
      by (simp add: signInUser_unfold sendEmailOTP_unfold split: sum.split)
  next
    case False
    then have "List.find (\<lambda>d. doc_email d = email) (users_collection st) = None"
      by (simp add: find_None_image)
    with False show ?thesis
      by (simp add: signInUser_unfold)
  qed
qed

text \<open>
  Alice, who has a profile with \<^verbatim>\<open>acct-1\<close> while the token answers \<^verbatim>\<open>acct-7\<close>, and Bob,
  who has none.
\<close>

theorem signInUser_cases_witness:
  "listDocuments_fault sv_ok [Query_equal ''email'' [''alice@example.com'']] = None \<and>
   ''alice@example.com'' \<in> doc_email ` set (users_collection world_alice) \<and>
   createEmailToken_response sv_ok (ID_unique_values sv_ok (id_counter world_alice))
     ''alice@example.com'' = Inr \<lparr>token_userId = Some ''acct-7''\<rparr> \<and>
   email_token_requests (snd (signInUser sv_ok ''alice@example.com'' world_alice))
     = [(''u'', ''alice@example.com'')] \<and>
   fst (signInUser sv_ok ''alice@example.com'' world_alice)
     = Returned (Some \<lparr>sir_accountId = Some ''acct-1'', sir_error = None\<rparr>) \<and>
   ''bob@example.com'' \<notin> doc_email ` set (users_collection world_alice) \<and>
   signInUser sv_ok ''bob@example.com'' world_alice
     = (Returned (Some \<lparr>sir_accountId = None, sir_error = Some ''User not found''\<rparr>),
        world_alice)"
  using signInUser_cases [where sv = sv_ok and st = world_alice and email = "''alice@example.com''"
      and tok = "\<lparr>token_userId = Some ''acct-7''\<rparr>"]
    signInUser_cases [where sv = sv_ok and st = world_alice and email = "''bob@example.com''"]
  by (simp add: fixture_defs)

text \<open>
  C10. The account identifier that \<^verbatim>\<open>signInUser\<close> returns for an email with a profile is
  the \<^verbatim>\<open>accountId\<close> of the document the lookup found; the token that the passcode send
  answered with, and its user identifier, do not occur in the result.
\<close>

theorem signInUser_accountId:
  "listDocuments_fault sv [Query_equal ''email'' [email]] = None \<Longrightarrow>
   List.find (\<lambda>d. doc_email d = email) (users_collection st) = Some u \<Longrightarrow>
   createEmailToken_response sv (ID_unique_values sv (id_counter st)) email = Inr tok \<Longrightarrow>
   fst (signInUser sv email st) =
     Returned (Some \<lparr>sir_accountId = Some (doc_accountId u), sir_error = None\<rparr>)"
  by (simp add: signInUser_unfold sendEmailOTP_unfold)

text \<open>
  Alice's document carries \<^verbatim>\<open>acct-1\<close> and the token answers \<^verbatim>\<open>acct-7\<close>: the result is
  \<^verbatim>\<open>acct-1\<close>.
\<close>

theorem signInUser_accountId_witness:
  "listDocuments_fault sv_ok [Query_equal ''email'' [''alice@example.com'']] = None \<and>
   List.find (\<lambda>d. doc_email d = ''alice@example.com'') (users_collection world_alice) = Some alice \<and>
   createEmailToken_response sv_ok (ID_unique_values sv_ok (id_counter world_alice))
     ''alice@example.com'' = Inr \<lparr>token_userId = Some ''acct-7''\<rparr> \<and>
   fst (signInUser sv_ok ''alice@example.com'' world_alice)
     = Returned (Some \<lparr>sir_accountId = Some ''acct-1'', sir_error = None\<rparr>)"
proof -
  have lookup: "listDocuments_fault sv_ok [Query_equal ''email'' [''alice@example.com'']] = None"
    by (simp add: fixture_defs)
  have profile: "List.find (\<lambda>d. doc_email d = ''alice@example.com'') (users_collection world_alice)
      = Some alice"
    by (simp add: fixture_defs)
  have sent: "createEmailToken_response sv_ok (ID_unique_values sv_ok (id_counter world_alice))
      ''alice@example.com'' = Inr \<lparr>token_userId = Some ''acct-7''\<rparr>"
    by (simp add: fixture_defs)
  from signInUser_accountId [OF lookup profile sent] lookup profile sent show ?thesis
    by (simp add: alice_def)
qed

section \<open>One profile per email\<close>

text \<open>Only \<^verbatim>\<open>createAccount\<close> writes to the users collection.\<close>

lemma users_sendEmailOTP:
  "users_collection (snd (sendEmailOTP sv email st)) = users_collection st"
  by (simp add: sendEmailOTP_unfold split: sum.split)

lemma users_verifySecret:
  "users_collection (snd (verifySecret sv accountId password st)) = users_collection st"
  by (simp add: verifySecret_unfold split: sum.split)

lemma users_getCurrentUser: "users_collection (snd (getCurrentUser sv st)) = users_collection st"
  by (simp add: getCurrentUser_unfold split: sum.split option.split)

lemma users_signOutUser: "users_collection (snd (signOutUser sv st)) = users_collection st"
  by (simp add: signOutUser_unfold split: sum.split option.split)

lemma users_signInUser: "users_collection (snd (signInUser sv email st)) = users_collection st"
  by (simp add: signInUser_unfold sendEmailOTP_unfold split: sum.split option.split)

lemma users_createAccount:
  "users_collection (snd (createAccount sv fullName email st)) = users_collection st \<or>
   (fst (getUserByEmail sv email st) = Returned None \<and>
    (\<exists>d. doc_email d = email \<and>
         users_collection (snd (createAccount sv fullName email st)) = users_collection st @ [d]))"
  by (simp add: createAccount_unfold getUserByEmail_unfold sendEmailOTP_unfold
      split: sum.split option.split)

lemma getUserByEmail_None:
  "fst (getUserByEmail sv email st) = Returned None \<Longrightarrow>
   email \<notin> doc_email ` set (users_collection st)"
  by (simp add: getUserByEmail_unfold find_None_image split: option.splits)

lemma users_not_CreateAccount:
  "\<not> is_CreateAccount r \<Longrightarrow> users_collection (perform sv r st) = users_collection st"
  by (cases r)
    (simp_all add: is_CreateAccount_def users_sendEmailOTP users_verifySecret
      users_getCurrentUser users_signOutUser users_signInUser)

lemma perform_one_profile_per_email:
  assumes "one_profile_per_email (users_collection st)"
  shows "one_profile_per_email (users_collection (perform sv r st))"
proof (cases r)
  case (CreateAccount fullName email)
  from users_createAccount [of sv fullName email st] show ?thesis
  proof
    assume "users_collection (snd (createAccount sv fullName email st)) = users_collection st"
    with assms CreateAccount show ?thesis by simp
  next
    assume created: "fst (getUserByEmail sv email st) = Returned None \<and>
      (\<exists>d. doc_email d = email \<and>
         users_collection (snd (createAccount sv fullName email st)) = users_collection st @ [d])"
    then have "email \<notin> doc_email ` set (users_collection st)"
      using getUserByEmail_None [of sv email st] by blast
    with created assms CreateAccount show ?thesis
      by (auto simp: one_profile_per_email_def)
  qed
qed (use assms in \<open>simp_all add: users_sendEmailOTP users_verifySecret
      users_getCurrentUser users_signOutUser users_signInUser\<close>)

lemma run_one_profile_per_email:
  "one_profile_per_email (users_collection st) \<Longrightarrow>
   one_profile_per_email (users_collection (run rs st))"
proof (induction rs arbitrary: st)
  case Nil
  then show ?case by simp
next
  case (Cons x rs)
  obtain sv r where x: "x = (sv, r)" by (cases x)
  from Cons.prems have "one_profile_per_email (users_collection (perform sv r st))"
    by (rule perform_one_profile_per_email)
  then have "one_profile_per_email (users_collection (run rs (perform sv r st)))"
    by (rule Cons.IH)
  with x show ?case by simp
qed

text \<open>
  C9. Running any sequence of requests from a state where no two documents share an email
  leads to such a state. A request other than \<^verbatim>\<open>createAccount\<close> leaves the users
  collection as it was, and when \<^verbatim>\<open>createAccount\<close> changes it, its lookup by that email
  had found none and it appended one document with that email.
\<close>

theorem one_profile_per_email_invariant:
  "(one_profile_per_email (users_collection st) \<longrightarrow>
      one_profile_per_email (users_collection (run rs st))) \<and>
   (\<not> is_CreateAccount r \<longrightarrow> users_collection (perform sv r st) = users_collection st) \<and>
   (users_collection (perform sv (CreateAccount fullName email) st) \<noteq> users_collection st \<longrightarrow>
      fst (getUserByEmail sv email st) = Returned None \<and>
      (\<exists>d. doc_email d = email \<and>
           users_collection (perform sv (CreateAccount fullName email) st) =
             users_collection st @ [d]))"
  using run_one_profile_per_email [of st rs] users_not_CreateAccount [of r sv st]
    users_createAccount [of sv fullName email st]
  by auto

text \<open>The example sequence from Alice's state: Bob's second sign-up adds nothing.\<close>

lemma users_run_example: "users_collection (run requests_example world_alice) = [alice, bob]"
  by (simp add: requests_example_def createAccount_unfold sendEmailOTP_unfold users_verifySecret
      users_getCurrentUser users_signOutUser users_signInUser fixture_defs)

theorem one_profile_per_email_invariant_witness:
  "one_profile_per_email (users_collection world_alice) \<and>
   one_profile_per_email (users_collection (run requests_example world_alice)) \<and>
   users_collection (run requests_example world_alice) = [alice, bob] \<and>
   \<not> is_CreateAccount (SignInUser ''bob@example.com'') \<and>
   users_collection (perform sv_ok (SignInUser ''bob@example.com'') world_alice) =
     users_collection world_alice \<and>
   users_collection (perform sv_ok (CreateAccount ''Bob'' ''bob@example.com'') world_alice) \<noteq>
     users_collection world_alice \<and>
   fst (getUserByEmail sv_ok ''bob@example.com'' world_alice) = Returned None \<and>
   users_collection (perform sv_ok (CreateAccount ''Bob'' ''bob@example.com'') world_alice) =
     users_collection world_alice @ [bob]"
proof -
  have start: "one_profile_per_email (users_collection world_alice)"
    by (simp add: one_profile_per_email_def fixture_defs)
  have other: "\<not> is_CreateAccount (SignInUser ''bob@example.com'')"
    by (simp add: is_CreateAccount_def)
  have created: "users_collection (perform sv_ok (CreateAccount ''Bob'' ''bob@example.com'') world_alice)
      = users_collection world_alice @ [bob]"
    by (simp add: createAccount_unfold sendEmailOTP_unfold fixture_defs)
  note inv = one_profile_per_email_invariant [where st = world_alice and rs = requests_example
      and r = "SignInUser ''bob@example.com''" and sv = sv_ok and fullName = "''Bob''"
      and email = "''bob@example.com''"]
  from inv start other created users_run_example show ?thesis
    by simp
qed

end
